theory Spec2Isabelle
  imports Complex_Main
begin

section \<open>JavaScript values\<close>

text \<open>
  The helpers of \<^verbatim>\<open>src/helper-functions/CardHelpers.js\<close> are untyped: every
  argument is an arbitrary JavaScript value and is coerced where it is used. The
  embedding therefore works on a datatype of values and writes each coercion out.

  A Number is NaN, an infinity, or a finite double, held as the exact rational it
  denotes. Negative zero is identified with zero: the module never divides by a
  computed value and never inspects the sign of a zero, and \<^verbatim>\<open>String(-0)\<close> is
  \<^verbatim>\<open>"0"\<close>.

  The universe is: \<^verbatim>\<open>undefined\<close>, \<^verbatim>\<open>null\<close>, booleans, Numbers, strings
  (code units below 256), dense arrays, and plain objects with data properties (an
  association list; the first binding of a key is the property). Symbols, BigInts,
  functions, getters, proxies and objects with a changed prototype are outside it.
\<close>

datatype jsnum = NaN | PosInf | NegInf | Fin rat

datatype jsval =
    Undefined
  | Null
  | Bool bool
  | Num jsnum
  | Str string
  | Arr "jsval list"
  | Obj "(string \<times> jsval) list"

datatype error = TypeError | RangeError

subsection \<open>Rounding to binary64\<close>

function ndigits :: "int \<Rightarrow> int \<Rightarrow> int" where
  "ndigits b n = (if n \<le> 0 \<or> b < 2 then 0 else 1 + ndigits b (n div b))"
  by pat_completeness auto
termination
proof (relation "measure (\<lambda>(b, n). nat n)")
  show "wf (measure (\<lambda>(b, n). nat n))" by simp
next
  fix b n :: int
  assume "\<not> (n \<le> 0 \<or> b < 2)"
  then have "0 < n" and "1 < b" by simp_all
  then have "n div b < n" by (rule int_div_less_self)
  with \<open>0 < n\<close> show "((b, n div b), (b, n)) \<in> measure (\<lambda>(b, n). nat n)"
    by simp
qed

definition powb :: "int \<Rightarrow> int \<Rightarrow> rat" where
  "powb b e = (if 0 \<le> e then of_int b ^ nat e else 1 / of_int b ^ nat (- e))"

text \<open>\<open>ilog b a\<close> is the integer \<open>e\<close> with \<open>b ^ e \<le> a < b ^ (e + 1)\<close>, for \<open>a > 0\<close>.\<close>

definition ilog :: "int \<Rightarrow> rat \<Rightarrow> int" where
  "ilog b a =
     (let (p, q) = quotient_of a;
          e0 = ndigits b p - ndigits b q
      in if powb b e0 \<le> a then e0 else e0 - 1)"

definition round_half_even :: "rat \<Rightarrow> int" where
  "round_half_even r =
     (let f = \<lfloor>r\<rfloor>; d = r - of_int f
      in if d < 1 / 2 then f else if 1 / 2 < d then f + 1
         else if even f then f else f + 1)"

text \<open>
  \<open>fl x\<close> is the Number value for the real \<open>x\<close>: round to nearest, ties to even,
  with a 53-bit significand, a least exponent of \<open>-1074\<close>, and overflow to an infinity
  once the rounded value reaches \<open>2 ^ 1024\<close> (the significand \<open>m\<close> has
  \<open>ndigits 2 m\<close> bits, so \<open>m * 2 ^ e\<close> reaches \<open>2 ^ 1024\<close> exactly when
  \<open>ndigits 2 m + e\<close> exceeds 1024).
\<close>

definition fl :: "rat \<Rightarrow> jsnum" where
  "fl x =
     (if x = 0 then Fin 0
      else
        let a = \<bar>x\<bar>;
            e = max (ilog 2 a - 52) (- 1074);
            m = round_half_even (a / powb 2 e);
            r = of_int m * powb 2 e
        in if 1024 < ndigits 2 m + e then (if 0 < x then PosInf else NegInf)
           else Fin (if 0 < x then r else - r))"

subsection \<open>Number arithmetic\<close>

fun num_neg :: "jsnum \<Rightarrow> jsnum" where
  "num_neg NaN = NaN"
| "num_neg PosInf = NegInf"
| "num_neg NegInf = PosInf"
| "num_neg (Fin x) = Fin (- x)"

fun num_add :: "jsnum \<Rightarrow> jsnum \<Rightarrow> jsnum" where
  "num_add NaN _ = NaN"
| "num_add _ NaN = NaN"
| "num_add PosInf NegInf = NaN"
| "num_add NegInf PosInf = NaN"
| "num_add PosInf _ = PosInf"
| "num_add NegInf _ = NegInf"
| "num_add _ PosInf = PosInf"
| "num_add _ NegInf = NegInf"
| "num_add (Fin x) (Fin y) = fl (x + y)"

definition num_sub :: "jsnum \<Rightarrow> jsnum \<Rightarrow> jsnum" where
  "num_sub a b = num_add a (num_neg b)"

text \<open>The sign of a Number: \<open>1\<close>, \<open>-1\<close>, or \<open>0\<close> for zero and NaN.\<close>

fun num_sgn :: "jsnum \<Rightarrow> int" where
  "num_sgn NaN = 0"
| "num_sgn PosInf = 1"
| "num_sgn NegInf = - 1"
| "num_sgn (Fin x) = (if 0 < x then 1 else if x < 0 then - 1 else 0)"

definition inf_of_sign :: "int \<Rightarrow> jsnum" where
  "inf_of_sign s = (if s = 0 then NaN else if 0 < s then PosInf else NegInf)"

fun num_mul :: "jsnum \<Rightarrow> jsnum \<Rightarrow> jsnum" where
  "num_mul NaN _ = NaN"
| "num_mul _ NaN = NaN"
| "num_mul (Fin x) (Fin y) = fl (x * y)"
| "num_mul a b = inf_of_sign (num_sgn a * num_sgn b)"

text \<open>
  Division. A zero divisor is taken as positive zero; the module divides by the
  literal \<open>100\<close> only.
\<close>

fun num_div :: "jsnum \<Rightarrow> jsnum \<Rightarrow> jsnum" where
  "num_div NaN _ = NaN"
| "num_div _ NaN = NaN"
| "num_div (Fin x) (Fin y) = (if y = 0 then inf_of_sign (num_sgn (Fin x)) else fl (x / y))"
| "num_div (Fin x) _ = Fin 0"
| "num_div a (Fin y) = inf_of_sign (num_sgn a * (if y < 0 then - 1 else 1))"
| "num_div _ _ = NaN"

text \<open>\<^verbatim>\<open>Math.floor\<close>: exact on every double.\<close>

fun math_floor :: "jsnum \<Rightarrow> jsnum" where
  "math_floor (Fin x) = Fin (of_int \<lfloor>x\<rfloor>)"
| "math_floor n = n"

text \<open>\<^verbatim>\<open>n > 0\<close> on Numbers: false for NaN.\<close>

fun num_gt_zero :: "jsnum \<Rightarrow> bool" where
  "num_gt_zero PosInf = True"
| "num_gt_zero (Fin x) = (0 < x)"
| "num_gt_zero _ = False"

subsection \<open>Numbers to strings\<close>

definition digit_char :: "int \<Rightarrow> char" where
  "digit_char d = ''0123456789abcdef'' ! nat d"

function digits10 :: "int \<Rightarrow> string" where
  "digits10 n =
     (if n < 10 then [digit_char n] else digits10 (n div 10) @ [digit_char (n mod 10)])"
  by pat_completeness auto
termination
proof (relation "measure nat")
  show "wf (measure nat)" by simp
next
  fix n :: int
  assume "\<not> n < 10"
  then have "n div 10 < n" by (intro int_div_less_self) simp_all
  with \<open>\<not> n < 10\<close> show "(n div 10, n) \<in> measure nat" by simp
qed

text \<open>
  The digits of \<^verbatim>\<open>Number::toString\<close>: the least \<open>k\<close> for which some
  \<open>k\<close>-digit integer \<open>s\<close> and exponent \<open>n\<close> give \<open>fl (s * 10 ^ (n - k)) = x\<close>,
  and for that \<open>k\<close> the \<open>s\<close> nearest to \<open>x\<close> (the even one on a tie). The two
  candidates at a given \<open>k\<close> are the neighbours of \<open>x\<close> on the \<open>k\<close>-digit grid.
  Seventeen digits identify every double; the last equation is for rationals that are
  not doubles.
\<close>

definition digits_at :: "rat \<Rightarrow> int \<Rightarrow> int \<Rightarrow> (int \<times> int) option" where
  "digits_at x n0 k =
     (let scale = powb 10 (n0 - k);
          s1 = \<lfloor>x / scale\<rfloor>;
          s2 = s1 + 1;
          ok1 = (fl (of_int s1 * scale) = Fin x);
          ok2 = (fl (of_int s2 * scale) = Fin x);
          d1 = x - of_int s1 * scale;
          d2 = of_int s2 * scale - x;
          pick1 = (ok1 \<and> (if ok2 then d1 < d2 \<or> (d1 = d2 \<and> even s1) else True))
      in if pick1 then Some (n0, s1)
         else if ok2 then
           (if s2 = 10 ^ nat k then Some (n0 + 1, 10 ^ nat (k - 1)) else Some (n0, s2))
         else None)"

fun shortest_from :: "rat \<Rightarrow> int \<Rightarrow> int list \<Rightarrow> int \<times> int \<times> int" where
  "shortest_from x n0 [] = (n0, 17, \<lfloor>x / powb 10 (n0 - 17)\<rfloor>)"
| "shortest_from x n0 (k # ks) =
     (case digits_at x n0 k of
        Some (n, s) \<Rightarrow> (n, k, s)
      | None \<Rightarrow> shortest_from x n0 ks)"

definition shortest_digits :: "rat \<Rightarrow> int \<times> int \<times> int" where
  "shortest_digits x =
     shortest_from x (ilog 10 x + 1) [1, 2, 3, 4, 5, 6, 7, 8, 9, 10, 11, 12, 13, 14, 15, 16, 17]"

definition zeros :: "int \<Rightarrow> string" where
  "zeros n = replicate (nat n) (CHR ''0'')"

definition exponent_part :: "int \<Rightarrow> string" where
  "exponent_part n = ''e'' @ (if 0 \<le> n - 1 then ''+'' else ''-'') @ digits10 \<bar>n - 1\<bar>"

definition pos_to_string :: "rat \<Rightarrow> string" where
  "pos_to_string x =
     (let (n, k, s) = shortest_digits x; ds = digits10 s
      in if k \<le> n \<and> n \<le> 21 then ds @ zeros (n - k)
         else if 0 < n \<and> n \<le> 21 then take (nat n) ds @ ''.'' @ drop (nat n) ds
         else if - 6 < n \<and> n \<le> 0 then ''0.'' @ zeros (- n) @ ds
         else if k = 1 then ds @ exponent_part n
         else take 1 ds @ ''.'' @ drop 1 ds @ exponent_part n)"

fun num_to_string :: "jsnum \<Rightarrow> string" where
  "num_to_string NaN = ''NaN''"
| "num_to_string PosInf = ''Infinity''"
| "num_to_string NegInf = ''-Infinity''"
| "num_to_string (Fin x) =
     (if x = 0 then ''0''
      else if x < 0 then ''-'' @ pos_to_string (- x)
      else pos_to_string x)"

text \<open>
  \<^verbatim>\<open>Number.prototype.toFixed\<close> with \<open>f\<close> already an integer in \<open>0..100\<close>: the
  integer \<open>n\<close> nearest to \<open>x * 10 ^ f\<close>, the larger one on a tie, with the point
  \<open>f\<close> digits from the right.
\<close>

definition fixed_digits :: "rat \<Rightarrow> int \<Rightarrow> string" where
  "fixed_digits x f =
     (let n = \<lfloor>x * powb 10 f + 1 / 2\<rfloor>;
          m = digits10 n;
          m' = (if int (length m) \<le> f then zeros (f + 1 - int (length m)) @ m else m);
          k = int (length m')
      in if f = 0 then m'
         else take (nat (k - f)) m' @ ''.'' @ drop (nat (k - f)) m')"

fun to_fixed :: "jsnum \<Rightarrow> int \<Rightarrow> string" where
  "to_fixed (Fin x) f =
     (let a = \<bar>x\<bar>;
          m = (if powb 10 21 \<le> a then num_to_string (Fin a) else fixed_digits a f)
      in if x < 0 then ''-'' @ m else m)"
| "to_fixed n f = num_to_string n"

subsection \<open>Strings to numbers\<close>

text \<open>
  \<^verbatim>\<open>StringToNumber\<close>: white space is trimmed, the empty string is \<open>0\<close>, and the
  rest must be \<^verbatim>\<open>Infinity\<close> or a decimal literal with an optional sign, or an
  unsigned binary, octal or hexadecimal integer literal; anything else is NaN.
\<close>

definition is_ws :: "char \<Rightarrow> bool" where
  "is_ws c = ((of_char c :: nat) \<in> {9, 10, 11, 12, 13, 32, 160})"

definition is_digit :: "char \<Rightarrow> bool" where
  "is_digit c = (48 \<le> (of_char c :: nat) \<and> (of_char c :: nat) \<le> 57)"

definition digit_val :: "char \<Rightarrow> int" where
  "digit_val c =
     (let n = int (of_char c)
      in if 48 \<le> n \<and> n \<le> 57 then n - 48
         else if 97 \<le> n \<and> n \<le> 102 then n - 87
         else if 65 \<le> n \<and> n \<le> 70 then n - 55
         else 16)"

definition digits_value :: "int \<Rightarrow> string \<Rightarrow> int" where
  "digits_value b ds = foldl (\<lambda>acc c. acc * b + digit_val c) 0 ds"

definition based_literal :: "int \<Rightarrow> string \<Rightarrow> jsnum" where
  "based_literal b ds =
     (if ds \<noteq> [] \<and> list_all (\<lambda>c. digit_val c < b) ds then fl (of_int (digits_value b ds))
      else NaN)"

definition exponent_opt :: "string \<Rightarrow> int option" where
  "exponent_opt s =
     (case s of
        [] \<Rightarrow> Some 0
      | c # t \<Rightarrow>
          if c = CHR ''e'' \<or> c = CHR ''E'' then
            (let neg = (case t of d # _ \<Rightarrow> d = CHR ''-'' | [] \<Rightarrow> False);
                 ds = (case t of d # u \<Rightarrow> if d = CHR ''+'' \<or> d = CHR ''-'' then u else t | [] \<Rightarrow> [])
             in if ds \<noteq> [] \<and> list_all is_digit ds
                then Some (if neg then - digits_value 10 ds else digits_value 10 ds)
                else None)
          else None)"

definition unsigned_decimal :: "string \<Rightarrow> rat option" where
  "unsigned_decimal s =
     (let ip = takeWhile is_digit s;
          r1 = dropWhile is_digit s;
          dot = (case r1 of c # _ \<Rightarrow> c = CHR ''.'' | [] \<Rightarrow> False);
          fp = (if dot then takeWhile is_digit (tl r1) else []);
          r2 = (if dot then dropWhile is_digit (tl r1) else r1)
      in if ip = [] \<and> fp = [] then None
         else case exponent_opt r2 of
                None \<Rightarrow> None
              | Some ex \<Rightarrow>
                  Some (of_int (digits_value 10 (ip @ fp)) * powb 10 (ex - int (length fp))))"

definition signed_decimal :: "string \<Rightarrow> jsnum" where
  "signed_decimal s =
     (let neg = (case s of c # _ \<Rightarrow> c = CHR ''-'' | [] \<Rightarrow> False);
          body = (case s of c # t \<Rightarrow> if c = CHR ''+'' \<or> c = CHR ''-'' then t else s | [] \<Rightarrow> [])
      in if body = ''Infinity'' then (if neg then NegInf else PosInf)
         else case unsigned_decimal body of
                None \<Rightarrow> NaN
              | Some v \<Rightarrow> fl (if neg then - v else v))"

definition trim :: "string \<Rightarrow> string" where
  "trim s = rev (dropWhile is_ws (rev (dropWhile is_ws s)))"

definition string_to_number :: "string \<Rightarrow> jsnum" where
  "string_to_number s0 =
     (let s = trim s0
      in if s = [] then Fin 0
         else if take 2 s = ''0x'' \<or> take 2 s = ''0X'' then based_literal 16 (drop 2 s)
         else if take 2 s = ''0o'' \<or> take 2 s = ''0O'' then based_literal 8 (drop 2 s)
         else if take 2 s = ''0b'' \<or> take 2 s = ''0B'' then based_literal 2 (drop 2 s)
         else signed_decimal s)"

subsection \<open>Coercions\<close>

text \<open>
  \<^verbatim>\<open>ToString\<close>. An array joins its elements with commas (\<^verbatim>\<open>undefined\<close> and
  \<^verbatim>\<open>null\<close> elements contribute nothing). A plain object gives
  \<^verbatim>\<open>[object Object]\<close> through the inherited method, unless an own data property
  named \<^verbatim>\<open>toString\<close> shadows it: that property is not callable, the inherited
  \<^verbatim>\<open>valueOf\<close> returns the object itself, and the conversion throws a TypeError.
\<close>

fun to_string :: "jsval \<Rightarrow> error + string"
  and array_join :: "jsval list \<Rightarrow> error + string" where
  "to_string Undefined = Inr ''undefined''"
| "to_string Null = Inr ''null''"
| "to_string (Bool b) = Inr (if b then ''true'' else ''false'')"
| "to_string (Num n) = Inr (num_to_string n)"
| "to_string (Str s) = Inr s"
| "to_string (Arr xs) = array_join xs"
| "to_string (Obj ps) =
     (if map_of ps ''toString'' = None then Inr ''[object Object]'' else Inl TypeError)"
| "array_join [] = Inr []"
| "array_join (x # xs) =
     (case (if x = Undefined \<or> x = Null then Inr [] else to_string x) of
        Inl e \<Rightarrow> Inl e
      | Inr a \<Rightarrow>
          if xs = [] then Inr a
          else (case array_join xs of Inl e \<Rightarrow> Inl e | Inr b \<Rightarrow> Inr (a @ '','' @ b)))"

text \<open>\<^verbatim>\<open>ToNumber\<close>; arrays and objects go through their string.\<close>

fun to_number :: "jsval \<Rightarrow> error + jsnum" where
  "to_number Undefined = Inr NaN"
| "to_number Null = Inr (Fin 0)"
| "to_number (Bool b) = Inr (Fin (if b then 1 else 0))"
| "to_number (Num n) = Inr n"
| "to_number (Str s) = Inr (string_to_number s)"
| "to_number v = (case to_string v of Inl e \<Rightarrow> Inl e | Inr s \<Rightarrow> Inr (string_to_number s))"

text \<open>\<^verbatim>\<open>ToBoolean\<close>.\<close>

fun truthy :: "jsval \<Rightarrow> bool" where
  "truthy Undefined = False"
| "truthy Null = False"
| "truthy (Bool b) = b"
| "truthy (Num n) = (n \<noteq> NaN \<and> n \<noteq> Fin 0)"
| "truthy (Str s) = (s \<noteq> [])"
| "truthy _ = True"

text \<open>\<^verbatim>\<open>a || b\<close> and \<^verbatim>\<open>a ?? b\<close>.\<close>

definition or_else :: "jsval \<Rightarrow> jsval \<Rightarrow> jsval" where
  "or_else a b = (if truthy a then a else b)"

definition nullish :: "jsval \<Rightarrow> bool" where
  "nullish v = (v = Undefined \<or> v = Null)"

definition coalesce :: "jsval \<Rightarrow> jsval \<Rightarrow> jsval" where
  "coalesce a b = (if nullish a then b else a)"

text \<open>
  \<^verbatim>\<open>v?.k\<close> for the data property names the module reads
  (\<^verbatim>\<open>configData\<close>, \<^verbatim>\<open>digit_after_decimal_point\<close>, \<^verbatim>\<open>currency_symbol\<close>,
  \<^verbatim>\<open>currency_symbol_direction\<close>, \<^verbatim>\<open>length\<close>, \<^verbatim>\<open>isChecked\<close>,
  \<^verbatim>\<open>name\<close>), none of which is inherited by a plain object. Arrays and strings
  have \<^verbatim>\<open>length\<close> and none of the others.
\<close>

fun opt_get :: "jsval \<Rightarrow> string \<Rightarrow> jsval" where
  "opt_get (Obj ps) k = (case map_of ps k of Some v \<Rightarrow> v | None \<Rightarrow> Undefined)"
| "opt_get (Arr xs) k = (if k = ''length'' then Num (Fin (of_nat (length xs))) else Undefined)"
| "opt_get (Str s) k = (if k = ''length'' then Num (Fin (of_nat (length s))) else Undefined)"
| "opt_get _ k = Undefined"

text \<open>\<^verbatim>\<open>v.k\<close>: as above, but a TypeError on \<^verbatim>\<open>undefined\<close> and \<^verbatim>\<open>null\<close>.\<close>

definition get :: "jsval \<Rightarrow> string \<Rightarrow> error + jsval" where
  "get v k = (if nullish v then Inl TypeError else Inr (opt_get v k))"

text \<open>\<^verbatim>\<open>v > 0\<close>.\<close>

definition gt_zero :: "jsval \<Rightarrow> error + bool" where
  "gt_zero v = (case to_number v of Inl e \<Rightarrow> Inl e | Inr n \<Rightarrow> Inr (num_gt_zero n))"

text \<open>The binary operators \<^verbatim>\<open>-\<close>, \<^verbatim>\<open>*\<close> and \<^verbatim>\<open>/\<close>: both operands to Numbers.\<close>

definition arith :: "(jsnum \<Rightarrow> jsnum \<Rightarrow> jsnum) \<Rightarrow> jsval \<Rightarrow> jsval \<Rightarrow> error + jsval" where
  "arith f a b =
     (case to_number a of
        Inl e \<Rightarrow> Inl e
      | Inr x \<Rightarrow> (case to_number b of Inl e \<Rightarrow> Inl e | Inr y \<Rightarrow> Inr (Num (f x y))))"

definition js_sub :: "jsval \<Rightarrow> jsval \<Rightarrow> error + jsval" where
  "js_sub = arith num_sub"

definition js_mul :: "jsval \<Rightarrow> jsval \<Rightarrow> error + jsval" where
  "js_mul = arith num_mul"

definition js_div :: "jsval \<Rightarrow> jsval \<Rightarrow> error + jsval" where
  "js_div = arith num_div"

text \<open>A template literal with two substitutions and no text: \<^verbatim>\<open>`${a}${b}`\<close>.\<close>

definition template2 :: "jsval \<Rightarrow> jsval \<Rightarrow> error + string" where
  "template2 a b =
     (case to_string a of
        Inl e \<Rightarrow> Inl e
      | Inr x \<Rightarrow> (case to_string b of Inl e \<Rightarrow> Inl e | Inr y \<Rightarrow> Inr (x @ y)))"

text \<open>
  \<^verbatim>\<open>ToIntegerOrInfinity\<close>, as \<^verbatim>\<open>toFixed\<close> applies it to its argument: NaN is
  \<open>0\<close>, a finite value is truncated, an infinity has no integer.
\<close>

fun to_integer :: "jsnum \<Rightarrow> int option" where
  "to_integer NaN = Some 0"
| "to_integer (Fin x) = Some (if 0 \<le> x then \<lfloor>x\<rfloor> else - \<lfloor>- x\<rfloor>)"
| "to_integer _ = None"

text \<open>
  \<^verbatim>\<open>num.toFixed(decimals)\<close>: a RangeError unless the digit count is an integer
  from 0 to 100.
\<close>

definition toFixed :: "jsnum \<Rightarrow> jsval \<Rightarrow> error + string" where
  "toFixed num decimals =
     (case to_number decimals of
        Inl e \<Rightarrow> Inl e
      | Inr d \<Rightarrow>
          (case to_integer d of
             None \<Rightarrow> Inl RangeError
           | Some f \<Rightarrow> if f < 0 \<or> 100 < f then Inl RangeError else Inr (to_fixed num f)))"

section \<open>The helpers of CardHelpers.js\<close>

subsection \<open>getAmountWithSign\<close>

text \<open>
  \<^verbatim>\<open>const { configData } = store?.getState()?.configData || {}\<close>. The store is
  imported from another module; the value of \<^verbatim>\<open>store?.getState()\<close> is the
  parameter \<open>state\<close>.
\<close>

definition configData_of :: "jsval \<Rightarrow> jsval" where
  "configData_of state = opt_get (or_else (opt_get state ''configData'') (Obj [])) ''configData''"

text \<open>
  \<^verbatim>\<open>const formatNumber = (num) => needDecimal ? num.toFixed(decimals) : Math.floor(num)\<close>
\<close>

definition formatNumber :: "jsval \<Rightarrow> jsval \<Rightarrow> jsnum \<Rightarrow> error + jsval" where
  "formatNumber needDecimal decimals num =
     (if truthy needDecimal then
        (case toFixed num decimals of Inl e \<Rightarrow> Inl e | Inr s \<Rightarrow> Inr (Str s))
      else Inr (Num (math_floor num)))"

text \<open>
  \<^verbatim>\<open>
  export const getAmountWithSign = (amount, needDecimal = true) => {
    if (amount == null || isNaN(Number(amount))) return "";
    const { configData } = store?.getState()?.configData || {};
    const decimals = configData?.digit_after_decimal_point ?? 2;
    const symbol = configData?.currency_symbol || "";
    const direction = configData?.currency_symbol_direction || "left";
    const formatNumber = (num) => {
      return needDecimal ? num.toFixed(decimals) : Math.floor(num);
    };
    const formattedAmount = formatNumber(Number(amount));
    return direction === "left" ? `${symbol}${formattedAmount}` : `${formattedAmount}${symbol}`;
  };
  \<close>
  The parameter \<^verbatim>\<open>needDecimal = true\<close> takes its default when the argument is
  \<^verbatim>\<open>undefined\<close>.
\<close>

definition getAmountWithSign :: "jsval \<Rightarrow> jsval \<Rightarrow> jsval \<Rightarrow> error + string" where
  "getAmountWithSign state amount needDecimalArg =
     (let needDecimal = (if needDecimalArg = Undefined then Bool True else needDecimalArg)
      in if nullish amount then Inr []
         else case to_number amount of
           Inl e \<Rightarrow> Inl e
         | Inr num \<Rightarrow>
             if num = NaN then Inr []
             else
               let configData = configData_of state;
                   decimals = coalesce (opt_get configData ''digit_after_decimal_point'') (Num (Fin 2));
                   symbol = or_else (opt_get configData ''currency_symbol'') (Str []);
                   direction = or_else (opt_get configData ''currency_symbol_direction'') (Str ''left'')
               in case formatNumber needDecimal decimals num of
                    Inl e \<Rightarrow> Inl e
                  | Inr formattedAmount \<Rightarrow>
                      if direction = Str ''left'' then template2 symbol formattedAmount
                      else template2 formattedAmount symbol)"

subsection \<open>getDiscountedAmount\<close>

text \<open>
  \<^verbatim>\<open>
  export const getDiscountedAmount = (price, discount, discountType, storeDiscount, quantity) => {
    let mainPrice = price;
    let q = quantity ? quantity : 1;
    if (discount > 0) {
      if (discountType === "amount") {
        mainPrice = price - discount * q;
      } else if (discountType === "percent" || discountType === "fixed") {
        mainPrice = price - (discount / 100) * price;
      }
    }
    return mainPrice;
  };
  \<close>
\<close>

definition getDiscountedAmount ::
  "jsval \<Rightarrow> jsval \<Rightarrow> jsval \<Rightarrow> jsval \<Rightarrow> jsval \<Rightarrow> error + jsval" where
  "getDiscountedAmount price discount discountType storeDiscount quantity =
     (let q = (if truthy quantity then quantity else Num (Fin 1))
      in case gt_zero discount of
           Inl e \<Rightarrow> Inl e
         | Inr False \<Rightarrow> Inr price
         | Inr True \<Rightarrow>
             if discountType = Str ''amount'' then
               (case js_mul discount q of Inl e \<Rightarrow> Inl e | Inr d \<Rightarrow> js_sub price d)
             else if discountType = Str ''percent'' \<or> discountType = Str ''fixed'' then
               (case js_div discount (Num (Fin 100)) of
                  Inl e \<Rightarrow> Inl e
                | Inr r \<Rightarrow> (case js_mul r price of Inl e \<Rightarrow> Inl e | Inr d \<Rightarrow> js_sub price d))
             else Inr price)"

subsection \<open>getSelectedAddOn\<close>

text \<open>
  \<^verbatim>\<open>
  export const getSelectedAddOn = (add_ons) => {
    let add_on = "";
    if (add_ons?.length > 0) {
      add_ons?.map((item, index) => {
        if (item?.isChecked) {
          add_on += `${index !== 0 ? ", " : ""}${item.name}`;
        }
      });
    }
    return add_on;
  };
  \<close>
  The callback of \<^verbatim>\<open>add_ons.map\<close>, run over the elements in order; \<open>index\<close> is
  the position in the whole array and \<open>add_on\<close> the string built so far.
\<close>

fun addOnLoop :: "jsval list \<Rightarrow> nat \<Rightarrow> string \<Rightarrow> error + string" where
  "addOnLoop [] index add_on = Inr add_on"
| "addOnLoop (item # rest) index add_on =
     (if truthy (opt_get item ''isChecked'') then
        (case get item ''name'' of
           Inl e \<Rightarrow> Inl e
         | Inr name \<Rightarrow>
             (case template2 (Str (if index \<noteq> 0 then '', '' else [])) name of
                Inl e \<Rightarrow> Inl e
              | Inr piece \<Rightarrow> addOnLoop rest (Suc index) (add_on @ piece)))
      else addOnLoop rest (Suc index) add_on)"

text \<open>
  \<^verbatim>\<open>add_ons?.map(...)\<close> where \<^verbatim>\<open>add_ons?.length > 0\<close> holds: only an array has
  a \<^verbatim>\<open>map\<close> method; on any other value with a positive length the call is a
  TypeError.
\<close>

definition getSelectedAddOn :: "jsval \<Rightarrow> error + string" where
  "getSelectedAddOn add_ons =
     (case gt_zero (opt_get add_ons ''length'') of
        Inl e \<Rightarrow> Inl e
      | Inr False \<Rightarrow> Inr []
      | Inr True \<Rightarrow>
          (case add_ons of
             Arr items \<Rightarrow> addOnLoop items 0 []
           | _ \<Rightarrow> Inl TypeError))"

subsection \<open>getReferDiscount\<close>

text \<open>
  \<^verbatim>\<open>
  export const getReferDiscount = (totalAmountForRefer, refDiscount, refPercentage) => {
    if (refPercentage === "percentage") {
      return (refDiscount / 100) * totalAmountForRefer;
    } else {
      return refDiscount;
    }
  };
  \<close>
\<close>

definition getReferDiscount :: "jsval \<Rightarrow> jsval \<Rightarrow> jsval \<Rightarrow> error + jsval" where
  "getReferDiscount totalAmountForRefer refDiscount refPercentage =
     (if refPercentage = Str ''percentage'' then
        (case js_div refDiscount (Num (Fin 100)) of
           Inl e \<Rightarrow> Inl e
         | Inr r \<Rightarrow> js_mul r totalAmountForRefer)
      else Inr refDiscount)"

section \<open>Inputs of the statements\<close>

text \<open>
  A decimal Number literal of the program text denotes the double nearest to its decimal
  value, which is what \<^verbatim>\<open>StringToNumber\<close> gives for the same characters.
\<close>

definition number_literal :: "string \<Rightarrow> jsval" where
  "number_literal s = Num (string_to_number s)"

text \<open>
  The store state that \<^verbatim>\<open>getAmountWithSign\<close> reads: the slice
  \<^verbatim>\<open>configData\<close> holds an object \<^verbatim>\<open>configData\<close> with the three settings.
\<close>

definition store_state :: "jsval \<Rightarrow> jsval \<Rightarrow> jsval \<Rightarrow> jsval" where
  "store_state digits symbol direction =
     Obj [(''configData'', Obj [(''configData'',
       Obj [(''digit_after_decimal_point'', digits),
            (''currency_symbol'', symbol),
            (''currency_symbol_direction'', direction)])])]"


section \<open>Conversions that cannot throw\<close>



section \<open>Evaluated examples\<close>

text \<open>
  Number arithmetic on the small integers of the examples (each result is rounded by
  \<open>fl\<close>, which leaves these values unchanged), and the conversions of the example
  amounts \<^verbatim>\<open>12.345\<close> and \<^verbatim>\<open>-12.3\<close>.
\<close>

lemma example_amount_arith: "num_sub (Fin 100) (num_mul (Fin 10) (Fin 2)) = Fin 80"
  by code_simp

lemma example_percent_arith:
  "num_sub (Fin 100) (num_mul (num_div (Fin 10) (Fin 100)) (Fin 100)) = Fin 90"
  by code_simp

lemma example_refer_arith: "num_mul (num_div (Fin 10) (Fin 100)) (Fin 200) = Fin 20"
  by code_simp

lemma string_to_number_12_345: "string_to_number ''12.345'' = Fin (6949617174986097 / 562949953421312)"
  by code_simp

lemma string_to_number_neg_12_3: "string_to_number ''-12.3'' = Fin (- (3462142213541069 / 281474976710656))"
  by code_simp

lemma floor_12_345: "\<lfloor>6949617174986097 / 562949953421312 :: rat\<rfloor> = 12"
  by code_simp

lemma floor_neg_12_3: "\<lfloor>- (3462142213541069 / 281474976710656) :: rat\<rfloor> = - 13"
  by code_simp

lemma num_to_string_12: "num_to_string (Fin 12) = ''12''"
  by code_simp

lemma num_to_string_neg_13: "num_to_string (Fin (- 13)) = ''-13''"
  by code_simp


lemma to_number_abc: "to_number (Str ''abc'') = Inr NaN"
  by code_simp

text \<open>
  Well-known results of the language, as checks of the number model: the rounding of a
  sum, \<^verbatim>\<open>toFixed\<close> on a literal that lies below its decimal value, the exponent
  notation from \<open>10 ^ 21\<close> on, a hexadecimal string, and the string of an array.
\<close>

lemma model_check_sum:
  "num_to_string (num_add (string_to_number ''0.1'') (string_to_number ''0.2''))
     = ''0.30000000000000004''"
  by code_simp

lemma model_check_toFixed: "to_fixed (string_to_number ''1.005'') 2 = ''1.00''"
  by code_simp

lemma model_check_exponent: "num_to_string (string_to_number ''1e21'') = ''1e+21''"
  by code_simp

lemma model_check_hex: "string_to_number '' 0x1F '' = Fin 31"
  by code_simp

lemma model_check_join:
  "to_string (Arr [Num (Fin 1), Null, Arr [Str ''a'', Undefined], Obj []])
     = Inr ''1,,a,,[object Object]''"
  by code_simp

section \<open>Properties of getAmountWithSign\<close>

lemma configData_of_store_state [simp]:
  "configData_of (store_state d s p) =
     Obj [(''digit_after_decimal_point'', d), (''currency_symbol'', s),
          (''currency_symbol_direction'', p)]"
  by (simp add: configData_of_def store_state_def or_else_def)

lemma configData_of_Undefined [simp]: "configData_of Undefined = Undefined"
  by (simp add: configData_of_def or_else_def)

text \<open>
  Past the guard on the amount, the function formats the Number and puts the symbol on
  one side of it.
\<close>

lemma getAmountWithSign_valid:
  assumes "\<not> nullish amount" and "to_number amount = Inr num" and "num \<noteq> NaN"
  shows "getAmountWithSign state amount needDecimal =
     (case formatNumber (if needDecimal = Undefined then Bool True else needDecimal)
             (coalesce (opt_get (configData_of state) ''digit_after_decimal_point'') (Num (Fin 2)))
             num of
        Inl e \<Rightarrow> Inl e
      | Inr f \<Rightarrow>
          if or_else (opt_get (configData_of state) ''currency_symbol_direction'') (Str ''left'')
               = Str ''left''
          then template2 (or_else (opt_get (configData_of state) ''currency_symbol'') (Str [])) f
          else template2 f (or_else (opt_get (configData_of state) ''currency_symbol'') (Str [])))"
  using assms by (simp add: getAmountWithSign_def Let_def)

text \<open>
  C1. The specification asks for truncation toward zero when \<^verbatim>\<open>needDecimal\<close> is
  false; the function calls \<^verbatim>\<open>Math.floor\<close>. What holds: for every amount that
  converts to a finite Number \<open>x\<close>, with a falsy \<^verbatim>\<open>needDecimal\<close> the numeric part
  of the result is the string of \<open>\<lfloor>x\<rfloor>\<close>, the greatest integer not above \<open>x\<close>,
  placed before or after the currency symbol. That is the truncation of \<open>x\<close> when
  \<open>x\<close> is not negative or is an integer, and one below the truncation when \<open>x\<close> is
  negative and not an integer.
\<close>

theorem getAmountWithSign_floor:
  assumes "\<not> nullish amount" and "to_number amount = Inr (Fin x)"
    and "needDecimal \<noteq> Undefined" and "\<not> truthy needDecimal"
    and "cd = configData_of state"
    and "to_string (or_else (opt_get cd ''currency_symbol'') (Str [])) = Inr symb"
    and "dir = or_else (opt_get cd ''currency_symbol_direction'') (Str ''left'')"
    and "body = num_to_string (Fin (of_int \<lfloor>x\<rfloor>))"
  shows "getAmountWithSign state amount needDecimal
           = Inr (if dir = Str ''left'' then symb @ body else body @ symb)
       \<and> (0 \<le> x \<or> of_int \<lfloor>x\<rfloor> = x \<longrightarrow> to_integer (Fin x) = Some \<lfloor>x\<rfloor>)
       \<and> (x < 0 \<and> of_int \<lfloor>x\<rfloor> \<noteq> x \<longrightarrow> to_integer (Fin x) = Some (\<lfloor>x\<rfloor> + 1))"
proof -
  have "getAmountWithSign state amount needDecimal
           = Inr (if dir = Str ''left'' then symb @ body else body @ symb)"
    using assms
    by (simp add: getAmountWithSign_valid formatNumber_def template2_def)
  moreover have "0 \<le> x \<or> of_int \<lfloor>x\<rfloor> = x \<longrightarrow> to_integer (Fin x) = Some \<lfloor>x\<rfloor>"
  proof (intro impI)
    assume h: "0 \<le> x \<or> of_int \<lfloor>x\<rfloor> = x"
    show "to_integer (Fin x) = Some \<lfloor>x\<rfloor>"
    proof (cases "0 \<le> x")
      case True
      then show ?thesis by simp
    next
      case False
      with h have e: "of_int \<lfloor>x\<rfloor> = x" by simp
      have "\<lfloor>- x\<rfloor> = - \<lfloor>x\<rfloor>" by (metis e floor_uminus_of_int)
      with False show ?thesis by (simp del: floor_uminus_of_int)
    qed
  qed
  moreover have "x < 0 \<and> of_int \<lfloor>x\<rfloor> \<noteq> x \<longrightarrow> to_integer (Fin x) = Some (\<lfloor>x\<rfloor> + 1)"
  proof (intro impI)
    assume h: "x < 0 \<and> of_int \<lfloor>x\<rfloor> \<noteq> x"
    then have "x \<noteq> of_int \<lfloor>x\<rfloor>" by metis
    then have "\<lceil>x\<rceil> = \<lfloor>x\<rfloor> + 1" by (simp only: ceiling_altdef if_False)
    then have "- \<lfloor>- x\<rfloor> = \<lfloor>x\<rfloor> + 1" by (simp add: ceiling_def)
    with h show "to_integer (Fin x) = Some (\<lfloor>x\<rfloor> + 1)" by simp
  qed
  ultimately show ?thesis by blast
qed

text \<open>
  The example of the specification, \<^verbatim>\<open>12.345\<close> with the symbol on the right, gives
  \<^verbatim>\<open>"12$"\<close>; the amount \<^verbatim>\<open>-12.3\<close> gives \<^verbatim>\<open>"-13$"\<close>, while its truncation is
  \<open>-12\<close>.
\<close>

theorem getAmountWithSign_floor_witness:
  "\<not> nullish (number_literal ''12.345'') \<and> Bool False \<noteq> Undefined \<and> \<not> truthy (Bool False)
   \<and> getAmountWithSign (store_state (Num (Fin 2)) (Str ''$'') (Str ''right''))
        (number_literal ''12.345'') (Bool False) = Inr ''12$''
   \<and> getAmountWithSign (store_state (Num (Fin 2)) (Str ''$'') (Str ''right''))
        (number_literal ''-12.3'') (Bool False) = Inr ''-13$''
   \<and> to_integer (string_to_number ''-12.3'') = Some (- 12)"
proof -
  let ?st = "store_state (Num (Fin 2)) (Str ''$'') (Str ''right'')"
  have sy: "to_string (or_else (opt_get (configData_of ?st) ''currency_symbol'') (Str [])) = Inr ''$''"
    by (simp add: or_else_def)
  have di: "or_else (opt_get (configData_of ?st) ''currency_symbol_direction'') (Str ''left'')
              = Str ''right''"
    by (simp add: or_else_def)
  have a: "\<not> nullish (number_literal ''12.345'')" "\<not> nullish (number_literal ''-12.3'')"
    by (simp_all add: nullish_def number_literal_def)
  have n1: "to_number (number_literal ''12.345'') = Inr (Fin (6949617174986097 / 562949953421312))"
    by (simp add: string_to_number_12_345 number_literal_def)
  have n2: "to_number (number_literal ''-12.3'') = Inr (Fin (- (3462142213541069 / 281474976710656)))"
    by (simp add: string_to_number_neg_12_3 number_literal_def)
  have b: "Bool False \<noteq> Undefined" "\<not> truthy (Bool False)"
    by simp_all
  have r1: "getAmountWithSign ?st (number_literal ''12.345'') (Bool False) = Inr ''12$''"
    using getAmountWithSign_floor [OF a(1) n1 b refl sy refl refl, THEN conjunct1]
    by (simp add: or_else_def floor_12_345 num_to_string_12 del: num_to_string.simps)
  note t = getAmountWithSign_floor [OF a(2) n2 b refl sy refl refl]
  have r2: "getAmountWithSign ?st (number_literal ''-12.3'') (Bool False) = Inr ''-13$''"
    using t [THEN conjunct1]
    by (simp add: or_else_def floor_neg_12_3 num_to_string_neg_13 del: num_to_string.simps)
  have "(- (3462142213541069 / 281474976710656) :: rat) < 0
        \<and> of_int \<lfloor>- (3462142213541069 / 281474976710656) :: rat\<rfloor>
            \<noteq> (- (3462142213541069 / 281474976710656) :: rat)"
    by (simp only: floor_neg_12_3) simp
  from t [THEN conjunct2, THEN conjunct2, rule_format, OF this]
  have "to_integer (Fin (- (3462142213541069 / 281474976710656))) = Some (- 13 + 1)"
    by (simp only: floor_neg_12_3)
  then have r3: "to_integer (string_to_number ''-12.3'') = Some (- 12)"
    by (simp only: string_to_number_neg_12_3) simp
  from a(1) b r1 r2 r3 show ?thesis by blast
qed

text \<open>The claim as the specification states it fails at \<^verbatim>\<open>-12.3\<close>.\<close>

theorem getAmountWithSign_truncation_counterexample:
  "getAmountWithSign (store_state (Num (Fin 2)) (Str ''$'') (Str ''right''))
     (number_literal ''-12.3'') (Bool False) = Inr ''-13$''
   \<and> getAmountWithSign (store_state (Num (Fin 2)) (Str ''$'') (Str ''right''))
     (number_literal ''-12.3'') (Bool False) \<noteq> Inr ''-12$''"
  by code_simp

text \<open>
  C4. The guard is \<^verbatim>\<open>amount == null || isNaN(Number(amount))\<close>: the result is the
  empty string for \<^verbatim>\<open>null\<close>, for \<^verbatim>\<open>undefined\<close> and for every amount that
  converts to NaN, whatever the flag and the configuration are. For an amount that
  converts to an infinity the result is never the empty string.
\<close>

theorem getAmountWithSign_invalid_amount:
  "(nullish amount \<or> to_number amount = Inr NaN \<longrightarrow>
      getAmountWithSign state amount needDecimal = Inr [])
   \<and> (\<not> nullish amount \<and> (to_number amount = Inr PosInf \<or> to_number amount = Inr NegInf) \<longrightarrow>
      getAmountWithSign state amount needDecimal \<noteq> Inr [])"
proof (intro conjI impI)
  assume "nullish amount \<or> to_number amount = Inr NaN"
  then show "getAmountWithSign state amount needDecimal = Inr []"
    by (auto simp add: getAmountWithSign_def Let_def)
next
  assume h: "\<not> nullish amount \<and> (to_number amount = Inr PosInf \<or> to_number amount = Inr NegInf)"
  then obtain num where n: "to_number amount = Inr num" "num = PosInf \<or> num = NegInf"
    by blast
  then have nn: "num \<noteq> NaN" by auto
  have f: "formatNumber nd dec num = Inr f \<Longrightarrow> \<exists>s. to_string f = Inr s \<and> s \<noteq> []" for nd dec f
    using n(2)
    by (auto simp add: formatNumber_def toFixed_def split: if_splits sum.splits option.splits)
  show "getAmountWithSign state amount needDecimal \<noteq> Inr []"
  proof
    assume r: "getAmountWithSign state amount needDecimal = Inr []"
    let ?symbol = "or_else (opt_get (configData_of state) ''currency_symbol'') (Str [])"
    from h have v: "\<not> nullish amount" by simp
    from r obtain g where F: "formatNumber (if needDecimal = Undefined then Bool True else needDecimal)
             (coalesce (opt_get (configData_of state) ''digit_after_decimal_point'') (Num (Fin 2)))
             num = Inr g"
      and t: "template2 ?symbol g = Inr [] \<or> template2 g ?symbol = Inr []"
      unfolding getAmountWithSign_valid [OF v n(1) nn]
      by (auto split: sum.splits if_splits)
    from f [OF F] obtain s where "to_string g = Inr s" and "s \<noteq> []" by blast
    with t show False by (auto simp add: template2_def split: sum.splits)
  qed
qed

theorem getAmountWithSign_invalid_amount_witness:
  "nullish Null \<and> nullish Undefined \<and> to_number (Str ''abc'') = Inr NaN
   \<and> getAmountWithSign (store_state (Num (Fin 2)) (Str ''$'') (Str ''left'')) Null (Bool True) = Inr []
   \<and> getAmountWithSign (store_state (Num (Fin 2)) (Str ''$'') (Str ''left'')) Undefined (Bool True) = Inr []
   \<and> getAmountWithSign (store_state (Num (Fin 2)) (Str ''$'') (Str ''left'')) (Str ''abc'') (Bool True) = Inr []
   \<and> getAmountWithSign (store_state (Num (Fin 2)) (Str ''$'') (Str ''left'')) (Str ''abc'') (Bool False) = Inr []
   \<and> getAmountWithSign (store_state (Num (Fin 2)) (Str ''$'') (Str ''left'')) (Num NegInf) (Bool False) \<noteq> Inr []"
  using
    getAmountWithSign_invalid_amount [of "Num NegInf" "store_state (Num (Fin 2)) (Str ''$'') (Str ''left'')" "Bool False"]
    getAmountWithSign_invalid_amount [of Null "store_state (Num (Fin 2)) (Str ''$'') (Str ''left'')" "Bool True"]
    getAmountWithSign_invalid_amount [of Undefined "store_state (Num (Fin 2)) (Str ''$'') (Str ''left'')" "Bool True"]
    getAmountWithSign_invalid_amount [of "Str ''abc''" "store_state (Num (Fin 2)) (Str ''$'') (Str ''left'')" "Bool True"]
    getAmountWithSign_invalid_amount [of "Str ''abc''" "store_state (Num (Fin 2)) (Str ''$'') (Str ''left'')" "Bool False"]
    to_number_abc
  by (simp add: nullish_def)

text \<open>
  An infinite amount is not NaN: it passes the guard and is formatted as
  \<^verbatim>\<open>Infinity\<close>.
\<close>

theorem getAmountWithSign_infinite_counterexample:
  "getAmountWithSign (store_state (Num (Fin 2)) (Str ''$'') (Str ''left''))
     (Num PosInf) (Bool True) = Inr ''$Infinity''
   \<and> getAmountWithSign (store_state (Num (Fin 2)) (Str ''$'') (Str ''left''))
     (Num PosInf) (Bool True) \<noteq> Inr []
   \<and> getAmountWithSign (store_state (Num (Fin 2)) (Str ''$'') (Str ''left''))
     (Str ''-Infinity'') (Bool False) = Inr ''$-Infinity''"
  by code_simp



section \<open>Properties of the discount helpers\<close>

text \<open>
  C5. For a discount that converts to a Number greater than zero and a price that
  converts to the Number \<open>p\<close>: with the type \<^verbatim>\<open>"amount"\<close> the result is
  \<open>p - d * q\<close>, where \<open>q\<close> is the quantity, or \<open>1\<close> when the quantity is falsy;
  with the type \<^verbatim>\<open>"percent"\<close> or \<^verbatim>\<open>"fixed"\<close> the result is
  \<open>p - (d / 100) * p\<close>, whatever the quantity is.
\<close>

theorem getDiscountedAmount_formulas:
  assumes "to_number price = Inr p" and "to_number discount = Inr d" and "num_gt_zero d"
  shows "(\<forall>q. to_number (if truthy quantity then quantity else Num (Fin 1)) = Inr q \<longrightarrow>
            getDiscountedAmount price discount (Str ''amount'') storeDiscount quantity
              = Inr (Num (num_sub p (num_mul d q))))
       \<and> (discountType = Str ''percent'' \<or> discountType = Str ''fixed'' \<longrightarrow>
            getDiscountedAmount price discount discountType storeDiscount quantity
              = Inr (Num (num_sub p (num_mul (num_div d (Fin 100)) p))))"
  using assms
  by (auto simp add: getDiscountedAmount_def gt_zero_def js_mul_def js_sub_def js_div_def
      arith_def)

theorem getDiscountedAmount_formulas_witness:
  "to_number (Num (Fin 100)) = Inr (Fin 100) \<and> to_number (Num (Fin 10)) = Inr (Fin 10)
   \<and> num_gt_zero (Fin 10)
   \<and> getDiscountedAmount (Num (Fin 100)) (Num (Fin 10)) (Str ''amount'') Undefined (Num (Fin 2))
       = Inr (Num (Fin 80))
   \<and> getDiscountedAmount (Num (Fin 100)) (Num (Fin 10)) (Str ''amount'') Undefined (Num (Fin 0))
       = Inr (Num (num_sub (Fin 100) (num_mul (Fin 10) (Fin 1))))
   \<and> getDiscountedAmount (Num (Fin 100)) (Num (Fin 10)) (Str ''percent'') Undefined (Num (Fin 5))
       = Inr (Num (Fin 90))"
  using
    getDiscountedAmount_formulas [of "Num (Fin 100)" "Fin 100" "Num (Fin 10)" "Fin 10"
      "Num (Fin 2)" Undefined "Str ''percent''"]
    getDiscountedAmount_formulas [of "Num (Fin 100)" "Fin 100" "Num (Fin 10)" "Fin 10"
      "Num (Fin 0)" Undefined "Str ''percent''"]
    getDiscountedAmount_formulas [of "Num (Fin 100)" "Fin 100" "Num (Fin 10)" "Fin 10"
      "Num (Fin 5)" Undefined "Str ''percent''"]
    example_amount_arith example_percent_arith
  by simp

text \<open>
  C6. The price is returned as it was passed whenever the discount converts to a
  Number that is not greater than zero, and whenever the type is none of
  \<^verbatim>\<open>"amount"\<close>, \<^verbatim>\<open>"percent"\<close>, \<^verbatim>\<open>"fixed"\<close>.
\<close>

theorem getDiscountedAmount_unchanged:
  assumes "to_number discount = Inr d"
  shows "(\<not> num_gt_zero d \<longrightarrow>
            getDiscountedAmount price discount discountType storeDiscount quantity = Inr price)
       \<and> (discountType \<noteq> Str ''amount'' \<and> discountType \<noteq> Str ''percent''
            \<and> discountType \<noteq> Str ''fixed'' \<longrightarrow>
            getDiscountedAmount price discount discountType storeDiscount quantity = Inr price)"
  using assms
  by (cases "num_gt_zero d") (auto simp add: getDiscountedAmount_def gt_zero_def)

theorem getDiscountedAmount_unchanged_witness:
  "to_number (Num (Fin 0)) = Inr (Fin 0) \<and> \<not> num_gt_zero (Fin 0)
   \<and> getDiscountedAmount (Num (Fin 100)) (Num (Fin 0)) (Str ''amount'') Undefined (Num (Fin 1))
       = Inr (Num (Fin 100))
   \<and> to_number (Num (Fin 10)) = Inr (Fin 10)
   \<and> getDiscountedAmount (Num (Fin 100)) (Num (Fin 10)) (Str ''flat'') Undefined (Num (Fin 1))
       = Inr (Num (Fin 100))"
  using
    getDiscountedAmount_unchanged [of "Num (Fin 0)" "Fin 0" "Num (Fin 100)" "Str ''amount''"
      Undefined "Num (Fin 1)"]
    getDiscountedAmount_unchanged [of "Num (Fin 10)" "Fin 10" "Num (Fin 100)" "Str ''flat''"
      Undefined "Num (Fin 1)"]
  by simp

text \<open>
  C10. The parameter \<^verbatim>\<open>storeDiscount\<close> is never read: two calls that differ only
  there return the same result.
\<close>

theorem getDiscountedAmount_ignores_storeDiscount:
  "getDiscountedAmount price discount discountType storeDiscount1 quantity
     = getDiscountedAmount price discount discountType storeDiscount2 quantity"
  by (simp add: getDiscountedAmount_def)

text \<open>
  C9. With the kind \<^verbatim>\<open>"percentage"\<close> the result is \<open>(d / 100) * t\<close> for the Numbers
  \<open>d\<close> and \<open>t\<close> of the discount value and the total; with any other kind the
  discount value is returned as it was passed.
\<close>

theorem getReferDiscount_formulas:
  "(to_number refDiscount = Inr d \<and> to_number totalAmountForRefer = Inr t \<longrightarrow>
      getReferDiscount totalAmountForRefer refDiscount (Str ''percentage'')
        = Inr (Num (num_mul (num_div d (Fin 100)) t)))
   \<and> (refPercentage \<noteq> Str ''percentage'' \<longrightarrow>
      getReferDiscount totalAmountForRefer refDiscount refPercentage = Inr refDiscount)"
  by (auto simp add: getReferDiscount_def js_mul_def js_div_def arith_def)

theorem getReferDiscount_formulas_witness:
  "to_number (Num (Fin 10)) = Inr (Fin 10) \<and> to_number (Num (Fin 200)) = Inr (Fin 200)
   \<and> getReferDiscount (Num (Fin 200)) (Num (Fin 10)) (Str ''percentage'') = Inr (Num (Fin 20))
   \<and> Str ''flat'' \<noteq> Str ''percentage''
   \<and> getReferDiscount (Num (Fin 200)) (Num (Fin 15)) (Str ''flat'') = Inr (Num (Fin 15))"
  using
    getReferDiscount_formulas [of "Num (Fin 10)" "Fin 10" "Num (Fin 200)" "Fin 200" "Str ''flat''"]
    getReferDiscount_formulas [of "Num (Fin 15)" "Fin 15" "Num (Fin 200)" "Fin 200" "Str ''flat''"]
    example_refer_arith
  by simp

section \<open>Properties of getSelectedAddOn\<close>

lemma truthy_opt_get_not_nullish: "truthy (opt_get item k) \<Longrightarrow> \<not> nullish item"
  by (auto simp add: nullish_def)

text \<open>
  The loop appends, for every checked entry in order, the name of the entry after a
  separator that is empty or \<^verbatim>\<open>", "\<close>. The entries are described by a list of
  pairs of a name and a flag; an unchecked entry may be any value.
\<close>

lemma addOnLoop_names:
  assumes "list_all2 (\<lambda>item e. truthy (opt_get item ''isChecked'') = snd e
               \<and> (snd e \<longrightarrow> opt_get item ''name'' = Str (fst e))) items entries"
  shows "\<exists>seps. length seps = length (filter snd entries)
           \<and> list_all (\<lambda>s. s = [] \<or> s = '', '') seps
           \<and> addOnLoop items i acc
               = Inr (acc @ concat (map2 (@) seps (map fst (filter snd entries))))"
  using assms
proof (induction arbitrary: i acc rule: list_all2_induct)
  case Nil
  then show ?case by simp
next
  case (Cons item items e entries)
  show ?case
  proof (cases "snd e")
    case False
    with Cons.hyps have "\<not> truthy (opt_get item ''isChecked'')" by simp
    with False Cons.IH [of "Suc i" acc] show ?thesis by simp
  next
    case True
    with Cons.hyps have t: "truthy (opt_get item ''isChecked'')"
      and n: "opt_get item ''name'' = Str (fst e)" by simp_all
    from t have nn: "\<not> nullish item" by (rule truthy_opt_get_not_nullish)
    let ?sep = "if i \<noteq> 0 then '', '' else []"
    from Cons.IH [of "Suc i" "acc @ ?sep @ fst e"] obtain seps
      where s: "length seps = length (filter snd entries)"
        "list_all (\<lambda>s. s = [] \<or> s = '', '') seps"
        "addOnLoop items (Suc i) (acc @ ?sep @ fst e)
           = Inr ((acc @ ?sep @ fst e) @ concat (map2 (@) seps (map fst (filter snd entries))))"
      by blast
    have "length (?sep # seps) = length (filter snd (e # entries))"
      using s(1) True by simp
    moreover have "list_all (\<lambda>s. s = [] \<or> s = '', '') (?sep # seps)"
      using s(2) by simp
    moreover have "addOnLoop (item # items) i acc
           = Inr (acc @ concat (map2 (@) (?sep # seps) (map fst (filter snd (e # entries)))))"
      using s(3) True t n nn by (simp add: get_def template2_def)
    ultimately show ?thesis by blast
  qed
qed

text \<open>
  C8. The result consists of the names of the checked entries, in their order in the
  array, each after a separator that is empty or \<^verbatim>\<open>", "\<close>; it is the empty string
  when no entry is checked, for the empty array and for \<^verbatim>\<open>null\<close> and
  \<^verbatim>\<open>undefined\<close>; and the three entries Cheese (checked), Bacon (unchecked), Sauce
  (checked) give \<^verbatim>\<open>"Cheese, Sauce"\<close>.
\<close>

theorem getSelectedAddOn_names:
  assumes "list_all2 (\<lambda>item e. truthy (opt_get item ''isChecked'') = snd e
               \<and> (snd e \<longrightarrow> opt_get item ''name'' = Str (fst e))) items entries"
    and "names = map fst (filter snd entries)"
  shows "(\<exists>seps. length seps = length names
            \<and> list_all (\<lambda>s. s = [] \<or> s = '', '') seps
            \<and> getSelectedAddOn (Arr items) = Inr (concat (map2 (@) seps names)))
       \<and> (names = [] \<longrightarrow> getSelectedAddOn (Arr items) = Inr [])
       \<and> getSelectedAddOn (Arr []) = Inr []
       \<and> getSelectedAddOn Null = Inr [] \<and> getSelectedAddOn Undefined = Inr []
       \<and> getSelectedAddOn
            (Arr [Obj [(''name'', Str ''Cheese''), (''isChecked'', Bool True)],
                  Obj [(''name'', Str ''Bacon''), (''isChecked'', Bool False)],
                  Obj [(''name'', Str ''Sauce''), (''isChecked'', Bool True)]])
           = Inr ''Cheese, Sauce''"
proof -
  from addOnLoop_names [OF assms(1), of 0 "[]"] obtain seps
    where s: "length seps = length names" "list_all (\<lambda>s. s = [] \<or> s = '', '') seps"
      "addOnLoop items 0 [] = Inr (concat (map2 (@) seps names))"
    using assms(2) by auto
  have g: "getSelectedAddOn (Arr items) = Inr (concat (map2 (@) seps names))"
  proof (cases items)
    case Nil
    with assms have "names = []" by simp
    with Nil show ?thesis by (simp add: getSelectedAddOn_def gt_zero_def)
  next
    case (Cons a list)
    with s(3) show ?thesis by (simp add: getSelectedAddOn_def gt_zero_def)
  qed
  have e: "getSelectedAddOn (Arr []) = Inr []"
    "getSelectedAddOn Null = Inr []" "getSelectedAddOn Undefined = Inr []"
    by (simp_all add: getSelectedAddOn_def gt_zero_def)
  have x: "getSelectedAddOn
            (Arr [Obj [(''name'', Str ''Cheese''), (''isChecked'', Bool True)],
                  Obj [(''name'', Str ''Bacon''), (''isChecked'', Bool False)],
                  Obj [(''name'', Str ''Sauce''), (''isChecked'', Bool True)]])
           = Inr ''Cheese, Sauce''"
    by (simp add: getSelectedAddOn_def gt_zero_def get_def template2_def nullish_def)
  from s(1,2) g e x show ?thesis by auto
qed

theorem getSelectedAddOn_names_witness:
  "list_all2 (\<lambda>item e. truthy (opt_get item ''isChecked'') = snd e
               \<and> (snd e \<longrightarrow> opt_get item ''name'' = Str (fst e)))
     [Obj [(''name'', Str ''Cheese''), (''isChecked'', Bool True)],
      Obj [(''name'', Str ''Bacon''), (''isChecked'', Bool False)],
      Obj [(''name'', Str ''Sauce''), (''isChecked'', Bool True)]]
     [(''Cheese'', True), (''Bacon'', False), (''Sauce'', True)]
   \<and> (\<exists>seps. length seps = length [''Cheese'', ''Sauce'']
          \<and> list_all (\<lambda>s. s = [] \<or> s = '', '') seps
          \<and> getSelectedAddOn
               (Arr [Obj [(''name'', Str ''Cheese''), (''isChecked'', Bool True)],
                     Obj [(''name'', Str ''Bacon''), (''isChecked'', Bool False)],
                     Obj [(''name'', Str ''Sauce''), (''isChecked'', Bool True)]])
              = Inr (concat (map2 (@) seps [''Cheese'', ''Sauce''])))
   \<and> getSelectedAddOn (Arr [Obj [(''name'', Str ''Bacon''), (''isChecked'', Bool False)]])
       = Inr []"
proof -
  have h: "list_all2 (\<lambda>item e. truthy (opt_get item ''isChecked'') = snd e
               \<and> (snd e \<longrightarrow> opt_get item ''name'' = Str (fst e)))
     [Obj [(''name'', Str ''Cheese''), (''isChecked'', Bool True)],
      Obj [(''name'', Str ''Bacon''), (''isChecked'', Bool False)],
      Obj [(''name'', Str ''Sauce''), (''isChecked'', Bool True)]]
     [(''Cheese'', True), (''Bacon'', False), (''Sauce'', True)]"
    by simp
  have n: "[''Cheese'', ''Sauce''] = map fst (filter snd [(''Cheese'', True), (''Bacon'', False), (''Sauce'', True)])"
    by simp
  have h2: "list_all2 (\<lambda>item e. truthy (opt_get item ''isChecked'') = snd e
               \<and> (snd e \<longrightarrow> opt_get item ''name'' = Str (fst e)))
     [Obj [(''name'', Str ''Bacon''), (''isChecked'', Bool False)]] [(''Bacon'', False)]"
    by simp
  have n2: "[] = map fst (filter snd [(''Bacon'', False)])"
    by simp
  from getSelectedAddOn_names [OF h n, THEN conjunct1]
    getSelectedAddOn_names [OF h2 n2, THEN conjunct2, THEN conjunct1] h
  show ?thesis by blast
qed

text \<open>
  C2. The separator is chosen by \<^verbatim>\<open>index !== 0\<close>, the position in the whole array,
  not by whether a name has been written already. When the first checked entry is not
  the first entry, the result begins with \<^verbatim>\<open>", "\<close>.
\<close>

theorem getSelectedAddOn_leading_separator:
  "getSelectedAddOn
     (Arr [Obj [(''name'', Str ''Cheese''), (''isChecked'', Bool False)],
           Obj [(''name'', Str ''Bacon''), (''isChecked'', Bool True)],
           Obj [(''name'', Str ''Sauce''), (''isChecked'', Bool True)]])
     = Inr '', Bacon, Sauce''"
  by code_simp

section \<open>Exceptions\<close>





end
